theory Spec2Isabelle
  imports
    Complex_Main
    "HOL-Library.AList"
    "HOL-Library.Multiset"
    "HOL-Library.Char_ord"
    "HOL-Library.List_Lexorder"
begin

section \<open>Values, dictionaries, rows\<close>

text \<open>
  The repository holds two versions of one converter: \<^verbatim>\<open>transform_db.py\<close> and
  \<^verbatim>\<open>transform_csv_to_database.py\<close>. Constants that embed a function present in both
  files with a different body carry the suffix \<open>_db\<close> or \<open>_csv\<close>; a function whose text is
  the same in both files is embedded once.

  A Python value that the pipeline handles is \<^verbatim>\<open>None\<close>, a string, or a number read by
  pandas from a CSV cell. Numbers are only ever copied, compared for identity and stored;
  no arithmetic is done on them.
\<close>

datatype pyval = PNone | PStr string | PFloat real

text \<open>
  A \<^verbatim>\<open>dict\<close> keeps its keys in insertion order: an association list, updated with
  \<open>AList.update\<close> (an existing key keeps its place, a new key goes to the end) and read
  with \<open>map_of\<close>. A pandas row is such a list of (column name, cell).
\<close>

type_synonym dict = "(string \<times> pyval) list"

datatype exn =
    ApiError string
  | IntegrityError string
  | KeyError string
  | IndexError
  | OtherException string
  | SystemExit nat

text \<open>\<^verbatim>\<open>d.get(k)\<close>: the value, or \<^verbatim>\<open>None\<close> for a missing key.\<close>

definition dict_get :: "dict \<Rightarrow> string \<Rightarrow> pyval" where
  "dict_get d k = (case map_of d k of None \<Rightarrow> PNone | Some v \<Rightarrow> v)"

text \<open>\<^verbatim>\<open>row[k]\<close>: raises \<^verbatim>\<open>KeyError\<close> for a missing column.\<close>

definition getitem :: "dict \<Rightarrow> string \<Rightarrow> exn + pyval" where
  "getitem row k = (case map_of row k of None \<Rightarrow> Inl (KeyError k) | Some v \<Rightarrow> Inr v)"

text \<open>\<^verbatim>\<open>row.values[i]\<close>: positional access, \<^verbatim>\<open>IndexError\<close> out of range.\<close>

definition values_at :: "dict \<Rightarrow> nat \<Rightarrow> exn + pyval" where
  "values_at row i = (if i < length row then Inr (snd (row ! i)) else Inl IndexError)"

section \<open>The validator\<close>

text \<open>\<^verbatim>\<open>transform_db.py\<close>, \<^verbatim>\<open>Converter.is_address_valid\<close>: both key lists sorted, then compared.\<close>

definition address_components_db :: "string list" where
  "address_components_db =
     [''country'', ''state'', ''city'', ''neighborhood'', ''street_number'',
      ''street_name'', ''postal_code'', ''latitude'', ''longitude'']"

definition is_address_valid_db :: "dict \<Rightarrow> bool" where
  "is_address_valid_db address =
     (let address_keys = sort (map fst address);
          address_components = sort address_components_db
      in if address_keys = address_components then True else False)"

text \<open>
  \<^verbatim>\<open>transform_csv_to_database.py\<close>, \<^verbatim>\<open>Converter.is_address_valid\<close>: a loop over the keys that
  returns \<^verbatim>\<open>False\<close> at the first key outside the list, and \<^verbatim>\<open>True\<close> after the loop. The list
  spells its last two names \<^verbatim>\<open>latitute\<close> and \<^verbatim>\<open>longitute\<close>.
\<close>

definition address_components_csv :: "string list" where
  "address_components_csv =
     [''country'', ''state'', ''city'', ''neighborhood'', ''street_number'',
      ''street_name'', ''postal_code'', ''latitute'', ''longitute'']"

fun keys_in_components :: "string list \<Rightarrow> string list \<Rightarrow> bool" where
  "keys_in_components address_components [] = True"
| "keys_in_components address_components (key # address_keys) =
     (if key \<notin> set address_components then False
      else keys_in_components address_components address_keys)"

definition is_address_valid_csv :: "dict \<Rightarrow> bool" where
  "is_address_valid_csv address = keys_in_components address_components_csv (map fst address)"

section \<open>The extractor\<close>

text \<open>
  One address component of a geocoding result. Each of its three entries may be absent:
  \<^verbatim>\<open>component.get("types", "")\<close> then gives the empty string, in which no tag occurs, and
  \<^verbatim>\<open>component.get("long_name")\<close> gives \<^verbatim>\<open>None\<close>.
\<close>

record component =
  types :: "string list option"
  long_name :: "string option"
  short_name :: "string option"

definition in_types :: "string \<Rightarrow> component \<Rightarrow> bool" where
  "in_types tag component =
     (case types component of None \<Rightarrow> False | Some component_types \<Rightarrow> tag \<in> set component_types)"

definition name_value :: "string option \<Rightarrow> pyval" where
  "name_value n = (case n of None \<Rightarrow> PNone | Some s \<Rightarrow> PStr s)"

text \<open>One \<^verbatim>\<open>if tag in component_types: address.update({field: value})\<close>.\<close>

definition assign :: "string \<Rightarrow> string \<Rightarrow> pyval \<Rightarrow> component \<Rightarrow> dict \<Rightarrow> dict" where
  "assign tag field v component address =
     (if in_types tag component then AList.update field v address else address)"

text \<open>The body of the loop: the seven tests, in the order of the source.\<close>

definition extract_component :: "component \<Rightarrow> dict \<Rightarrow> dict" where
  "extract_component component =
     assign ''postal_code'' ''postal_code'' (name_value (long_name component)) component
   \<circ> assign ''route'' ''street_name'' (name_value (long_name component)) component
   \<circ> assign ''street_number'' ''street_number'' (name_value (long_name component)) component
   \<circ> assign ''sublocality_level_1'' ''neighborhood'' (name_value (long_name component)) component
   \<circ> assign ''administrative_area_level_2'' ''city'' (name_value (long_name component)) component
   \<circ> assign ''administrative_area_level_1'' ''state'' (name_value (short_name component)) component
   \<circ> assign ''country'' ''country'' (name_value (long_name component)) component"

text \<open>
  \<^verbatim>\<open>Converter.get_address_from_address_components\<close> (the same text in both files): the
  address if it is not empty, else the implicit \<^verbatim>\<open>None\<close>.
\<close>

definition get_address_from_address_components :: "component list \<Rightarrow> dict option" where
  "get_address_from_address_components address_components =
     (let address = fold extract_component address_components []
      in if address \<noteq> [] then Some address else None)"

section \<open>The world: tables, log, geocoding service\<close>

record geocode_result =
  address_components :: "component list option"

datatype level = INFO | WARNING | CRITICAL

datatype message =
    AddressSaved dict
  | NotSaved "geocode_result list"
  | ExcText exn
  | Text string

datatype table = coordinate_points_table | addresses_table

text \<open>
  What a run can change: the two tables, the log, standard output, and the calls made to
  the geocoding service so far.
\<close>

record world =
  coordinate_points :: "dict list"
  addresses :: "dict list"
  logged :: "(level \<times> message) list"
  printed :: "message list"
  api_calls :: "(pyval \<times> pyval) list"

text \<open>
  What the code does not define is a parameter: the answer of the geocoding service to its
  \<open>n\<close>-th call (a list of results, or an exception), the exception an insert raises, if
  any, given the world, the table and the row (the schema and its constraints are not in
  the repository), and whether the module runs imported (\<^verbatim>\<open>__name__ != '__main__'\<close>).
  No transaction is opened anywhere in the source, so an insert that raises nothing is
  persisted at once.
\<close>

record env =
  reverse_geocode :: "nat \<Rightarrow> pyval \<times> pyval \<Rightarrow> exn + geocode_result list"
  insert_error :: "world \<Rightarrow> table \<Rightarrow> dict \<Rightarrow> exn option"
  imported :: bool

datatype outcome = Returned | Raised exn

definition logger :: "level \<Rightarrow> message \<Rightarrow> world \<Rightarrow> world" where
  "logger lvl m w = w\<lparr>logged := logged w @ [(lvl, m)]\<rparr>"

definition print_if_imported :: "env \<Rightarrow> message \<Rightarrow> world \<Rightarrow> world" where
  "print_if_imported E m w = (if imported E then w\<lparr>printed := printed w @ [m]\<rparr> else w)"

definition table_insert :: "env \<Rightarrow> table \<Rightarrow> dict \<Rightarrow> world \<Rightarrow> exn + world" where
  "table_insert E t r w =
     (case insert_error E w t r of
        Some e \<Rightarrow> Inl e
      | None \<Rightarrow>
          Inr (case t of
                 coordinate_points_table \<Rightarrow> w\<lparr>coordinate_points := coordinate_points w @ [r]\<rparr>
               | addresses_table \<Rightarrow> w\<lparr>addresses := addresses w @ [r]\<rparr>))"

section \<open>The resolver\<close>

text \<open>
  \<^verbatim>\<open>Converter.get_address_from_coordinates\<close> (the same text in both files): an
  \<^verbatim>\<open>ApiError\<close> is logged at critical severity and becomes \<^verbatim>\<open>os.sys.exit(1)\<close>; any other
  exception of the client is not caught here.
\<close>

definition get_address_from_coordinates ::
    "env \<Rightarrow> pyval \<Rightarrow> pyval \<Rightarrow> world \<Rightarrow> (exn + geocode_result list) \<times> world" where
  "get_address_from_coordinates E latitude longitude w =
     (let w1 = w\<lparr>api_calls := api_calls w @ [(latitude, longitude)]\<rparr>
      in case reverse_geocode E (length (api_calls w)) (latitude, longitude) of
           Inr result \<Rightarrow> (Inr result, w1)
         | Inl e \<Rightarrow>
             (case e of
                ApiError m \<Rightarrow> (Inl (SystemExit 1), logger CRITICAL (Text m) w1)
              | _ \<Rightarrow> (Inl e, w1)))"

section \<open>Saving one pair (\<^verbatim>\<open>transform_db.py\<close>)\<close>

definition replace_newlines :: "string \<Rightarrow> string" where
  "replace_newlines s = map (\<lambda>c. if c = CHR 0x0A then CHR '' '' else c) s"

text \<open>
  The two \<^verbatim>\<open>except\<close> clauses of \<^verbatim>\<open>save_to_database\<close>: \<^verbatim>\<open>IntegrityError\<close> first, then any
  \<^verbatim>\<open>Exception\<close>. \<^verbatim>\<open>SystemExit\<close> is not an \<^verbatim>\<open>Exception\<close> and passes through.
\<close>

definition save_handler :: "env \<Rightarrow> exn \<Rightarrow> world \<Rightarrow> outcome \<times> world" where
  "save_handler E e w =
     (case e of
        IntegrityError orig \<Rightarrow>
          (Returned, logger CRITICAL (Text (replace_newlines orig))
                       (print_if_imported E (Text (replace_newlines orig)) w))
      | SystemExit n \<Rightarrow> (Raised e, w)
      | _ \<Rightarrow> (Returned, logger CRITICAL (ExcText e) (print_if_imported E (ExcText e) w)))"

definition save_to_database :: "env \<Rightarrow> dict \<Rightarrow> dict \<Rightarrow> world \<Rightarrow> outcome \<times> world" where
  "save_to_database E coordinate address w =
     (case table_insert E coordinate_points_table coordinate w of
        Inl e \<Rightarrow> save_handler E e w
      | Inr w1 \<Rightarrow>
          (case table_insert E addresses_table address w1 of
             Inl e \<Rightarrow> save_handler E e w1
           | Inr w2 \<Rightarrow>
               (Returned, logger INFO (AddressSaved address)
                            (print_if_imported E (AddressSaved address) w2))))"

section \<open>The batch loop\<close>

text \<open>The nine \<^verbatim>\<open>complete_address.get(...)\<close> of the row written to \<^verbatim>\<open>addresses\<close>.\<close>

definition addresses_row :: "dict \<Rightarrow> dict" where
  "addresses_row complete_address =
     [(''street_number'', dict_get complete_address ''street_number''),
      (''street_name'', dict_get complete_address ''street_name''),
      (''neighborhood'', dict_get complete_address ''neighborhood''),
      (''city'', dict_get complete_address ''city''),
      (''state'', dict_get complete_address ''state''),
      (''country'', dict_get complete_address ''country''),
      (''postal_code'', dict_get complete_address ''postal_code''),
      (''latitude'', dict_get complete_address ''latitude''),
      (''longitude'', dict_get complete_address ''longitude'')]"

text \<open>
  The four \<^verbatim>\<open>coordinate[...]\<close> of the row written to \<^verbatim>\<open>coordinate_points\<close>; the first
  missing column raises.
\<close>

definition coordinate_row :: "dict \<Rightarrow> exn + dict" where
  "coordinate_row coordinate =
     (case getitem coordinate ''latitude'' of
        Inl e \<Rightarrow> Inl e
      | Inr la \<Rightarrow>
          (case getitem coordinate ''longitude'' of
             Inl e \<Rightarrow> Inl e
           | Inr lo \<Rightarrow>
               (case getitem coordinate ''distance_km'' of
                  Inl e \<Rightarrow> Inl e
                | Inr d \<Rightarrow>
                    (case getitem coordinate ''bearing_degrees'' of
                       Inl e \<Rightarrow> Inl e
                     | Inr b \<Rightarrow>
                         Inr [(''latitude'', la), (''longitude'', lo),
                              (''distance_km'', d), (''bearing_degrees'', b)]))))"

text \<open>
  \<^verbatim>\<open>transform_db.py\<close>: what the loop of \<^verbatim>\<open>save_dataset_coordinates_to_database\<close> does
  with one row, from the resolved \<^verbatim>\<open>result\<close> on.
\<close>

definition handle_result_db ::
    "env \<Rightarrow> dict \<Rightarrow> pyval \<Rightarrow> pyval \<Rightarrow> geocode_result list \<Rightarrow> world \<Rightarrow> outcome \<times> world" where
  "handle_result_db E coordinate latitude longitude result w =
     (case result of
        [] \<Rightarrow> (Returned, logger WARNING (NotSaved result) (print_if_imported E (NotSaved result) w))
      | r # _ \<Rightarrow>
          (case address_components r of
             None \<Rightarrow> (Returned, w)
           | Some comps \<Rightarrow>
               if comps = [] then (Returned, w)
               else
                 (case get_address_from_address_components comps of
                    None \<Rightarrow> (Returned, w)
                  | Some address \<Rightarrow>
                      (let complete_address =
                             AList.update ''longitude'' longitude
                               (AList.update ''latitude'' latitude address)
                       in if is_address_valid_db complete_address then
                            (case coordinate_row coordinate of
                               Inl e \<Rightarrow> (Raised e, w)
                             | Inr c \<Rightarrow> save_to_database E c (addresses_row complete_address) w)
                          else (Returned, w)))))"

definition process_row_db :: "env \<Rightarrow> dict \<Rightarrow> world \<Rightarrow> outcome \<times> world" where
  "process_row_db E coordinate w =
     (case getitem coordinate ''latitude'' of
        Inl e \<Rightarrow> (Raised e, w)
      | Inr latitude \<Rightarrow>
          (case getitem coordinate ''longitude'' of
             Inl e \<Rightarrow> (Raised e, w)
           | Inr longitude \<Rightarrow>
               (case get_address_from_coordinates E latitude longitude w of
                  (Inl e, w1) \<Rightarrow> (Raised e, w1)
                | (Inr result, w1) \<Rightarrow> handle_result_db E coordinate latitude longitude result w1)))"

fun save_dataset_coordinates_to_database_db ::
    "env \<Rightarrow> dict list \<Rightarrow> world \<Rightarrow> outcome \<times> world" where
  "save_dataset_coordinates_to_database_db E [] w = (Returned, w)"
| "save_dataset_coordinates_to_database_db E (coordinate # rest) w =
     (case process_row_db E coordinate w of
        (Raised e, w1) \<Rightarrow> (Raised e, w1)
      | (Returned, w1) \<Rightarrow> save_dataset_coordinates_to_database_db E rest w1)"

text \<open>
  \<^verbatim>\<open>transform_csv_to_database.py\<close>: the same loop, with the two inserts written in the
  loop body and no \<^verbatim>\<open>try\<close> around them. The coordinates are merged under the keys
  \<^verbatim>\<open>latitute\<close> and \<^verbatim>\<open>longitute\<close>, from the first two cells of the row by position; the
  message is logged before the inserts. (The \<^verbatim>\<open>pdb.set_trace()\<close> before the loop stops for
  the operator and changes nothing when continued.)
\<close>

definition handle_result_csv ::
    "env \<Rightarrow> dict \<Rightarrow> geocode_result list \<Rightarrow> world \<Rightarrow> outcome \<times> world" where
  "handle_result_csv E coordinate result w =
     (case result of
        [] \<Rightarrow> (Returned, logger WARNING (NotSaved result) w)
      | r # _ \<Rightarrow>
          (case address_components r of
             None \<Rightarrow> (Returned, w)
           | Some comps \<Rightarrow>
               if comps = [] then (Returned, w)
               else
                 (case get_address_from_address_components comps of
                    None \<Rightarrow> (Returned, w)
                  | Some address \<Rightarrow>
                      (case values_at coordinate 0 of
                         Inl e \<Rightarrow> (Raised e, w)
                       | Inr v0 \<Rightarrow>
                      (case values_at coordinate 1 of
                         Inl e \<Rightarrow> (Raised e, w)
                       | Inr v1 \<Rightarrow>
                         (let complete_address =
                                AList.update ''longitute'' v1 (AList.update ''latitute'' v0 address)
                          in if is_address_valid_csv complete_address then
                               (let w1 = logger INFO (AddressSaved complete_address) w
                                in case coordinate_row coordinate of
                                     Inl e \<Rightarrow> (Raised e, w1)
                                   | Inr c \<Rightarrow>
                                       (case table_insert E coordinate_points_table c w1 of
                                          Inl e \<Rightarrow> (Raised e, w1)
                                        | Inr w2 \<Rightarrow>
                                            (case table_insert E addresses_table
                                                    (addresses_row complete_address) w2 of
                                               Inl e \<Rightarrow> (Raised e, w2)
                                             | Inr w3 \<Rightarrow> (Returned, w3))))
                             else (Returned, w)))))))"

definition process_row_csv :: "env \<Rightarrow> dict \<Rightarrow> world \<Rightarrow> outcome \<times> world" where
  "process_row_csv E coordinate w =
     (case getitem coordinate ''latitude'' of
        Inl e \<Rightarrow> (Raised e, w)
      | Inr latitude \<Rightarrow>
          (case getitem coordinate ''longitude'' of
             Inl e \<Rightarrow> (Raised e, w)
           | Inr longitude \<Rightarrow>
               (case get_address_from_coordinates E latitude longitude w of
                  (Inl e, w1) \<Rightarrow> (Raised e, w1)
                | (Inr result, w1) \<Rightarrow> handle_result_csv E coordinate result w1)))"

fun save_dataset_coordinates_to_database_csv ::
    "env \<Rightarrow> dict list \<Rightarrow> world \<Rightarrow> outcome \<times> world" where
  "save_dataset_coordinates_to_database_csv E [] w = (Returned, w)"
| "save_dataset_coordinates_to_database_csv E (coordinate # rest) w =
     (case process_row_csv E coordinate w of
        (Raised e, w1) \<Rightarrow> (Raised e, w1)
      | (Returned, w1) \<Rightarrow> save_dataset_coordinates_to_database_csv E rest w1)"

section \<open>Names used in the statements\<close>

text \<open>
  The seven tags the extractor tests for, and the field each one fills (the tests of
  \<open>extract_component\<close>, as a table).
\<close>

definition recognized_tags :: "string list" where
  "recognized_tags =
     [''country'', ''administrative_area_level_1'', ''administrative_area_level_2'',
      ''sublocality_level_1'', ''street_number'', ''route'', ''postal_code'']"

definition tag_field :: "(string \<times> string) list" where
  "tag_field =
     [(''country'', ''country''), (''administrative_area_level_1'', ''state''),
      (''administrative_area_level_2'', ''city''), (''sublocality_level_1'', ''neighborhood''),
      (''street_number'', ''street_number''), (''route'', ''street_name''),
      (''postal_code'', ''postal_code'')]"

definition fields_of :: "component \<Rightarrow> string list" where
  "fields_of c = map snd (filter (\<lambda>tf. in_types (fst tf) c) tag_field)"

section \<open>Concrete inputs\<close>

text \<open>An empty database and log; two CSV rows; components, services and constraints.\<close>

definition w0 :: world where
  "w0 = \<lparr>coordinate_points = [], addresses = [], logged = [], printed = [], api_calls = []\<rparr>"

definition row1 :: dict where
  "row1 = [(''latitude'', PFloat 1), (''longitude'', PFloat 2),
           (''distance_km'', PFloat 3), (''bearing_degrees'', PFloat 4)]"

definition row2 :: dict where
  "row2 = [(''latitude'', PFloat 5), (''longitude'', PFloat 6),
           (''distance_km'', PFloat 7), (''bearing_degrees'', PFloat 8)]"

definition tagged :: "string \<Rightarrow> string \<Rightarrow> component" where
  "tagged tag name = \<lparr>types = Some [tag], long_name = Some name, short_name = Some name\<rparr>"

definition full_components :: "component list" where
  "full_components =
     [tagged ''street_number'' ''123'', tagged ''route'' ''Main St'',
      tagged ''sublocality_level_1'' ''Centro'',
      tagged ''administrative_area_level_2'' ''Porto Alegre'',
      tagged ''administrative_area_level_1'' ''RS'', tagged ''country'' ''Brazil'',
      tagged ''postal_code'' ''90000'']"

definition full_address :: dict where
  "full_address =
     [(''street_number'', PStr ''123''), (''street_name'', PStr ''Main St''),
      (''neighborhood'', PStr ''Centro''), (''city'', PStr ''Porto Alegre''),
      (''state'', PStr ''RS''), (''country'', PStr ''Brazil''),
      (''postal_code'', PStr ''90000'')]"

definition untagged_component :: component where
  "untagged_component =
     \<lparr>types = Some [''political''], long_name = Some ''Somewhere'', short_name = None\<rparr>"

text \<open>Services: every lookup finds the full address; finds nothing; finds a result with
  no recognized tag; fails with an \<^verbatim>\<open>ApiError\<close> at the third call.\<close>

definition geocoder_full :: "nat \<Rightarrow> pyval \<times> pyval \<Rightarrow> exn + geocode_result list" where
  "geocoder_full n c = Inr [\<lparr>address_components = Some full_components\<rparr>]"

definition geocoder_not_found :: "nat \<Rightarrow> pyval \<times> pyval \<Rightarrow> exn + geocode_result list" where
  "geocoder_not_found n c = Inr []"

definition geocoder_untagged :: "nat \<Rightarrow> pyval \<times> pyval \<Rightarrow> exn + geocode_result list" where
  "geocoder_untagged n c = Inr [\<lparr>address_components = Some [untagged_component]\<rparr>]"

definition geocoder_third_fails :: "nat \<Rightarrow> pyval \<times> pyval \<Rightarrow> exn + geocode_result list" where
  "geocoder_third_fails n c = (if n = 2 then Inl (ApiError ''OVER_QUERY_LIMIT'') else Inr [])"

text \<open>Constraints: none; a coordinate row may be stored once; every address insert is
  refused.\<close>

definition no_insert_error :: "world \<Rightarrow> table \<Rightarrow> dict \<Rightarrow> exn option" where
  "no_insert_error w t r = None"

definition unique_coordinates :: "world \<Rightarrow> table \<Rightarrow> dict \<Rightarrow> exn option" where
  "unique_coordinates w t r =
     (if t = coordinate_points_table \<and> r \<in> set (coordinate_points w)
      then Some (IntegrityError ''duplicate key'') else None)"

definition addresses_rejected :: "world \<Rightarrow> table \<Rightarrow> dict \<Rightarrow> exn option" where
  "addresses_rejected w t r =
     (if t = addresses_table then Some (IntegrityError ''null value in column id'') else None)"

section \<open>Lemmas: the validators\<close>

lemma sort_eq_iff_mset: "sort xs = sort ys \<longleftrightarrow> mset xs = mset ys"
proof
  assume "sort xs = sort ys"
  then have "mset (sort xs) = mset (sort ys)" by simp
  then show "mset xs = mset ys" by simp
next
  assume "mset xs = mset ys"
  then show "sort xs = sort ys"
    by (metis mset_sort properties_for_sort sorted_sort)
qed

lemma distinct_address_components_db: "distinct address_components_db"
  by (simp add: address_components_db_def)

lemma is_address_valid_db_iff:
  assumes "distinct (map fst address)"
  shows "is_address_valid_db address \<longleftrightarrow> set (map fst address) = set address_components_db"
proof -
  have "is_address_valid_db address \<longleftrightarrow> mset (map fst address) = mset address_components_db"
    by (simp add: is_address_valid_db_def sort_eq_iff_mset)
  also have "\<dots> \<longleftrightarrow> set (map fst address) = set address_components_db"
    using assms distinct_address_components_db
    by (simp only: set_eq_iff_mset_eq_distinct)
  finally show ?thesis .
qed

lemma keys_in_components_iff:
  "keys_in_components cs ks \<longleftrightarrow> set ks \<subseteq> set cs"
  by (induction ks) auto

lemma is_address_valid_csv_iff:
  "is_address_valid_csv address \<longleftrightarrow> set (map fst address) \<subseteq> set address_components_csv"
  by (simp only: is_address_valid_csv_def keys_in_components_iff)

section \<open>Lemmas: the extractor\<close>

lemma keys_assign:
  "fst ` set (assign tag field v c a) = (if in_types tag c then {field} else {}) \<union> fst ` set a"
  by (simp add: assign_def dom_update)

lemma distinct_assign:
  "distinct (map fst a) \<Longrightarrow> distinct (map fst (assign tag field v c a))"
  by (simp add: assign_def distinct_update)

lemma assign_skip: "\<not> in_types tag c \<Longrightarrow> assign tag field v c a = a"
  by (simp add: assign_def)

lemma keys_extract_component:
  "fst ` set (extract_component c a) = fst ` set a \<union> set (fields_of c)"
  by (auto simp add: extract_component_def keys_assign fields_of_def tag_field_def)

lemma distinct_extract_component:
  "distinct (map fst a) \<Longrightarrow> distinct (map fst (extract_component c a))"
  by (simp add: extract_component_def distinct_assign)

lemma keys_fold_extract:
  "fst ` set (fold extract_component cs a) = fst ` set a \<union> (\<Union>c\<in>set cs. set (fields_of c))"
  by (induction cs arbitrary: a) (auto simp add: keys_extract_component)

lemma distinct_fold_extract:
  "distinct (map fst a) \<Longrightarrow> distinct (map fst (fold extract_component cs a))"
  by (induction cs arbitrary: a) (simp_all add: distinct_extract_component)

lemma extract_component_skip:
  assumes "\<forall>t\<in>set recognized_tags. \<not> in_types t c"
  shows "extract_component c a = a"
  using assms by (simp add: extract_component_def recognized_tags_def assign_skip)

lemma fold_extract_skip:
  assumes "\<forall>c\<in>set cs. \<forall>t\<in>set recognized_tags. \<not> in_types t c"
  shows "fold extract_component cs a = a"
  using assms by (induction cs arbitrary: a) (simp_all add: extract_component_skip)

lemma extractor_none:
  assumes "\<forall>c\<in>set cs. \<forall>t\<in>set recognized_tags. \<not> in_types t c"
  shows "get_address_from_address_components cs = None"
  using fold_extract_skip [OF assms, of "[]"]
  by (simp add: get_address_from_address_components_def)

lemma all_fields:
  assumes "\<forall>t\<in>set recognized_tags. \<exists>c\<in>set cs. in_types t c"
  shows "(\<Union>c\<in>set cs. set (fields_of c)) = snd ` set tag_field"
proof
  show "(\<Union>c\<in>set cs. set (fields_of c)) \<subseteq> snd ` set tag_field"
    by (auto simp add: fields_of_def)
  show "snd ` set tag_field \<subseteq> (\<Union>c\<in>set cs. set (fields_of c))"
  proof
    fix f assume "f \<in> snd ` set tag_field"
    then obtain t where tf: "(t, f) \<in> set tag_field" by auto
    then have "t \<in> set recognized_tags"
      by (auto simp add: tag_field_def recognized_tags_def)
    with assms obtain c where c: "c \<in> set cs" "in_types t c" by blast
    from tf c(2) have "f \<in> set (fields_of c)"
      by (force simp add: fields_of_def)
    with c(1) show "f \<in> (\<Union>c\<in>set cs. set (fields_of c))" by blast
  qed
qed

section \<open>Lemmas: the batch loop\<close>

lemma run_db_append:
  "save_dataset_coordinates_to_database_db E (xs @ ys) w =
     (case save_dataset_coordinates_to_database_db E xs w of
        (Raised e, w1) \<Rightarrow> (Raised e, w1)
      | (Returned, w1) \<Rightarrow> save_dataset_coordinates_to_database_db E ys w1)"
  by (induction xs arbitrary: w) (simp_all split: prod.splits outcome.splits)

lemma run_csv_append:
  "save_dataset_coordinates_to_database_csv E (xs @ ys) w =
     (case save_dataset_coordinates_to_database_csv E xs w of
        (Raised e, w1) \<Rightarrow> (Raised e, w1)
      | (Returned, w1) \<Rightarrow> save_dataset_coordinates_to_database_csv E ys w1)"
  by (induction xs arbitrary: w) (simp_all split: prod.splits outcome.splits)

lemma resolver_api_error:
  assumes "reverse_geocode E (length (api_calls w)) (la, lo) = Inl (ApiError m)"
  shows "get_address_from_coordinates E la lo w =
           (Inl (SystemExit 1),
            w\<lparr>api_calls := api_calls w @ [(la, lo)], logged := logged w @ [(CRITICAL, Text m)]\<rparr>)"
  using assms by (simp add: get_address_from_coordinates_def logger_def)

lemma resolver_result:
  assumes "reverse_geocode E (length (api_calls w)) (la, lo) = Inr result"
  shows "get_address_from_coordinates E la lo w =
           (Inr result, w\<lparr>api_calls := api_calls w @ [(la, lo)]\<rparr>)"
  using assms by (simp add: get_address_from_coordinates_def)

lemma process_row_db_api_error:
  assumes "getitem row ''latitude'' = Inr la" and "getitem row ''longitude'' = Inr lo"
    and "reverse_geocode E (length (api_calls w)) (la, lo) = Inl (ApiError m)"
  shows "process_row_db E row w =
           (Raised (SystemExit 1),
            w\<lparr>api_calls := api_calls w @ [(la, lo)], logged := logged w @ [(CRITICAL, Text m)]\<rparr>)"
  using assms by (simp add: process_row_db_def resolver_api_error)

lemma process_row_csv_api_error:
  assumes "getitem row ''latitude'' = Inr la" and "getitem row ''longitude'' = Inr lo"
    and "reverse_geocode E (length (api_calls w)) (la, lo) = Inl (ApiError m)"
  shows "process_row_csv E row w =
           (Raised (SystemExit 1),
            w\<lparr>api_calls := api_calls w @ [(la, lo)], logged := logged w @ [(CRITICAL, Text m)]\<rparr>)"
  using assms by (simp add: process_row_csv_def resolver_api_error)

lemma process_row_db_result:
  assumes "getitem row ''latitude'' = Inr la" and "getitem row ''longitude'' = Inr lo"
    and "reverse_geocode E (length (api_calls w)) (la, lo) = Inr result"
  shows "process_row_db E row w =
           handle_result_db E row la lo result (w\<lparr>api_calls := api_calls w @ [(la, lo)]\<rparr>)"
  using assms by (simp add: process_row_db_def resolver_result)

lemma process_row_csv_result:
  assumes "getitem row ''latitude'' = Inr la" and "getitem row ''longitude'' = Inr lo"
    and "reverse_geocode E (length (api_calls w)) (la, lo) = Inr result"
  shows "process_row_csv E row w =
           handle_result_csv E row result (w\<lparr>api_calls := api_calls w @ [(la, lo)]\<rparr>)"
  using assms by (simp add: process_row_csv_def resolver_result)

lemma getitem_row1 [simp]:
  "getitem row1 ''latitude'' = Inr (PFloat 1)" "getitem row1 ''longitude'' = Inr (PFloat 2)"
  by (simp_all add: getitem_def row1_def)

text \<open>
  Any exception of the geocoding client, not only \<^verbatim>\<open>ApiError\<close>, ends the loop of
  \<^verbatim>\<open>transform_db.py\<close> at that row: nothing after it is looked up or inserted.
\<close>

lemma resolver_exception:
  assumes "reverse_geocode E (length (api_calls w)) (la, lo) = Inl e"
  shows "\<exists>x w'. get_address_from_coordinates E la lo w = (Inl x, w') \<and>
           api_calls w' = api_calls w @ [(la, lo)] \<and>
           coordinate_points w' = coordinate_points w \<and> addresses w' = addresses w"
  using assms
  by (cases e) (simp_all add: get_address_from_coordinates_def logger_def)

lemma service_exception_aborts_batch:
  assumes "getitem row ''latitude'' = Inr la" and "getitem row ''longitude'' = Inr lo"
    and "save_dataset_coordinates_to_database_db E before w = (Returned, w1)"
    and "reverse_geocode E (length (api_calls w1)) (la, lo) = Inl e"
  shows "\<exists>x w'. save_dataset_coordinates_to_database_db E (before @ row # after) w = (Raised x, w') \<and>
           api_calls w' = api_calls w1 @ [(la, lo)] \<and>
           coordinate_points w' = coordinate_points w1 \<and> addresses w' = addresses w1"
proof -
  obtain x w' where r: "get_address_from_coordinates E la lo w1 = (Inl x, w')"
    "api_calls w' = api_calls w1 @ [(la, lo)]"
    "coordinate_points w' = coordinate_points w1" "addresses w' = addresses w1"
    using resolver_exception [OF assms(4)] by blast
  then have "process_row_db E row w1 = (Raised x, w')"
    using assms(1,2) by (simp add: process_row_db_def)
  then have "save_dataset_coordinates_to_database_db E (before @ row # after) w = (Raised x, w')"
    using assms(3) by (simp add: run_db_append)
  with r show ?thesis by blast
qed

section \<open>Lemmas: the concrete inputs\<close>

lemma extract_full_components:
  "get_address_from_address_components full_components = Some full_address"
  by (simp add: get_address_from_address_components_def full_components_def tagged_def
      extract_component_def assign_def in_types_def name_value_def full_address_def)

lemma full_components_nonempty [simp]: "full_components \<noteq> []"
  by (simp add: full_components_def)

lemma getitem_row2 [simp]:
  "getitem row2 ''latitude'' = Inr (PFloat 5)" "getitem row2 ''longitude'' = Inr (PFloat 6)"
  by (simp_all add: getitem_def row2_def)

lemma coordinate_row_examples [simp]:
  "coordinate_row row1 = Inr row1" "coordinate_row row2 = Inr row2"
  by (simp_all add: coordinate_row_def getitem_def row1_def row2_def)

lemma values_at_examples [simp]:
  "values_at row1 0 = Inr (PFloat 1)" "values_at row1 (Suc 0) = Inr (PFloat 2)"
  "values_at row2 0 = Inr (PFloat 5)" "values_at row2 (Suc 0) = Inr (PFloat 6)"
  by (simp_all add: values_at_def row1_def row2_def)

lemma csv_valid_full [simp]:
  "is_address_valid_csv (full_address @ [(''latitute'', v0), (''longitute'', v1)])"
  by (simp add: is_address_valid_csv_def address_components_csv_def full_address_def)

lemma csv_merged_full:
  "AList.update ''longitute'' v1 (AList.update ''latitute'' v0 full_address)
     = full_address @ [(''latitute'', v0), (''longitute'', v1)]"
  by (simp add: full_address_def)

lemma csv_addresses_row_full:
  "addresses_row (full_address @ [(''latitute'', v0), (''longitute'', v1)])
     = full_address @ [(''latitude'', PNone), (''longitude'', PNone)]"
  by (simp add: addresses_row_def dict_get_def full_address_def)

lemma db_valid_full [simp]:
  "is_address_valid_db (full_address @ [(''latitude'', v0), (''longitude'', v1)])"
proof -
  let ?a = "full_address @ [(''latitude'', v0), (''longitude'', v1)]"
  have d: "distinct (map fst ?a)" by (simp add: full_address_def)
  have "set (map fst ?a) = set address_components_db"
    by (simp add: full_address_def address_components_db_def insert_commute)
  with d show ?thesis by (simp only: is_address_valid_db_iff)
qed

lemma db_merged_full:
  "AList.update ''longitude'' v1 (AList.update ''latitude'' v0 full_address)
     = full_address @ [(''latitude'', v0), (''longitude'', v1)]"
  by (simp add: full_address_def)

lemma db_addresses_row_full:
  "addresses_row (full_address @ [(''latitude'', v0), (''longitude'', v1)])
     = full_address @ [(''latitude'', v0), (''longitude'', v1)]"
  by (simp add: addresses_row_def dict_get_def full_address_def)

lemma rows_differ [simp]: "row1 \<noteq> row2" "row2 \<noteq> row1"
  by (simp_all add: row1_def row2_def)

section \<open>Lemmas: what \<^verbatim>\<open>transform_db.py\<close> guarantees\<close>

text \<open>
  The two validators are never both true of one address: the one of \<^verbatim>\<open>transform_db.py\<close>
  needs the key \<^verbatim>\<open>latitude\<close>, which the one of \<^verbatim>\<open>transform_csv_to_database.py\<close> refuses.
\<close>

lemma validators_never_both:
  "\<not> (is_address_valid_db address \<and> is_address_valid_csv address)"
proof
  assume a: "is_address_valid_db address \<and> is_address_valid_csv address"
  then have "sort (map fst address) = sort address_components_db"
    by (simp add: is_address_valid_db_def split: if_splits)
  then have "set (sort (map fst address)) = set (sort address_components_db)" by simp
  then have "set (map fst address) = set address_components_db" by simp
  moreover have "''latitude'' \<in> set address_components_db"
    by (simp add: address_components_db_def)
  ultimately have "''latitude'' \<in> set (map fst address)" by simp
  moreover from a have "set (map fst address) \<subseteq> set address_components_csv"
    by (simp only: is_address_valid_csv_iff)
  ultimately have "''latitude'' \<in> set address_components_csv" by blast
  then show False by (simp add: address_components_csv_def)
qed

text \<open>
  A conflict at either insert is caught in \<^verbatim>\<open>save_to_database\<close>, which then returns; the
  only exception it lets through is \<^verbatim>\<open>SystemExit\<close>.
\<close>

lemma save_to_database_coordinate_conflict:
  assumes "insert_error E w coordinate_points_table c = Some (IntegrityError m)"
  shows "save_to_database E c a w =
           (Returned, logger CRITICAL (Text (replace_newlines m))
                        (print_if_imported E (Text (replace_newlines m)) w))"
  using assms by (simp add: save_to_database_def table_insert_def save_handler_def)

lemma save_to_database_address_conflict:
  assumes "insert_error E w coordinate_points_table c = None"
    and "insert_error E (w\<lparr>coordinate_points := coordinate_points w @ [c]\<rparr>) addresses_table a
           = Some (IntegrityError m)"
  shows "save_to_database E c a w =
           (Returned, logger CRITICAL (Text (replace_newlines m))
                        (print_if_imported E (Text (replace_newlines m))
                           (w\<lparr>coordinate_points := coordinate_points w @ [c]\<rparr>)))"
  using assms by (simp add: save_to_database_def table_insert_def save_handler_def)

lemma save_to_database_raises_only_exit:
  assumes "fst (save_to_database E c a w) = Raised e"
  shows "\<exists>n. e = SystemExit n"
  using assms
  by (auto simp add: save_to_database_def table_insert_def save_handler_def
      split: option.splits exn.splits)

text \<open>
  A row processed by the loop of \<^verbatim>\<open>transform_db.py\<close> adds at most one row to
  \<^verbatim>\<open>addresses\<close>, and that row carries the latitude and longitude of the input row.
\<close>

lemma save_to_database_addresses:
  "addresses (snd (save_to_database E c a w)) = addresses w \<or>
   addresses (snd (save_to_database E c a w)) = addresses w @ [a]"
  by (auto simp add: save_to_database_def table_insert_def save_handler_def logger_def
      print_if_imported_def split: option.splits exn.splits)

lemma addresses_row_coordinates:
  "dict_get (addresses_row (AList.update ''longitude'' lo (AList.update ''latitude'' la a)))
     ''latitude'' = la"
  "dict_get (addresses_row (AList.update ''longitude'' lo (AList.update ''latitude'' la a)))
     ''longitude'' = lo"
  by (simp_all add: addresses_row_def dict_get_def update_conv')

lemma handle_result_db_addresses:
  "addresses (snd (handle_result_db E row la lo result w)) = addresses w \<or>
   (\<exists>a. addresses (snd (handle_result_db E row la lo result w)) = addresses w @ [a] \<and>
        dict_get a ''latitude'' = la \<and> dict_get a ''longitude'' = lo)"
proof -
  have s: "\<And>c a. addresses (snd (save_to_database E c
              (addresses_row (AList.update ''longitude'' lo (AList.update ''latitude'' la a))) w))
            = addresses w \<or>
           (\<exists>b. addresses (snd (save_to_database E c
              (addresses_row (AList.update ''longitude'' lo (AList.update ''latitude'' la a))) w))
            = addresses w @ [b] \<and> dict_get b ''latitude'' = la \<and> dict_get b ''longitude'' = lo)"
    using save_to_database_addresses addresses_row_coordinates by metis
  show ?thesis
    using s
    by (simp add: handle_result_db_def logger_def print_if_imported_def Let_def
        split: list.splits option.splits sum.splits)
qed

lemma resolver_addresses:
  "addresses (snd (get_address_from_coordinates E la lo w)) = addresses w"
  by (simp add: get_address_from_coordinates_def logger_def Let_def
      split: sum.splits exn.splits)

lemma db_address_row_coordinates:
  "addresses (snd (process_row_db E row w)) = addresses w \<or>
   (\<exists>a. addresses (snd (process_row_db E row w)) = addresses w @ [a] \<and>
        getitem row ''latitude'' = Inr (dict_get a ''latitude'') \<and>
        getitem row ''longitude'' = Inr (dict_get a ''longitude''))"
proof (cases "getitem row ''latitude''")
  case (Inl e)
  then show ?thesis by (simp add: process_row_db_def)
next
  case la: (Inr la)
  show ?thesis
  proof (cases "getitem row ''longitude''")
    case (Inl e)
    then show ?thesis using la by (simp add: process_row_db_def)
  next
    case lo: (Inr lo)
    obtain x w1 where g: "get_address_from_coordinates E la lo w = (x, w1)"
      by (cases "get_address_from_coordinates E la lo w")
    then have a1: "addresses w1 = addresses w"
      using resolver_addresses [of E la lo w] by simp
    show ?thesis
    proof (cases x)
      case (Inl e)
      then show ?thesis using la lo g a1 by (simp add: process_row_db_def)
    next
      case (Inr result)
      then have "process_row_db E row w = handle_result_db E row la lo result w1"
        using la lo g by (simp add: process_row_db_def)
      then show ?thesis
        using handle_result_db_addresses [of E row la lo result w1] a1 la lo by auto
    qed
  qed
qed

text \<open>
  A batch with a repeated line, on a table that stores a coordinate row once: the loop of
  \<^verbatim>\<open>transform_db.py\<close> logs the conflict and goes on to the third row.
\<close>

lemma db_conflict_batch_continues:
  "save_dataset_coordinates_to_database_db
     \<lparr>reverse_geocode = geocoder_full, insert_error = unique_coordinates, imported = False\<rparr>
     [row1, row1, row2] w0
   = (Returned,
      w0\<lparr>coordinate_points := [row1, row2],
         addresses := [full_address @ [(''latitude'', PFloat 1), (''longitude'', PFloat 2)],
                       full_address @ [(''latitude'', PFloat 5), (''longitude'', PFloat 6)]],
         logged := [(INFO, AddressSaved
                      (full_address @ [(''latitude'', PFloat 1), (''longitude'', PFloat 2)])),
                    (CRITICAL, Text ''duplicate key''),
                    (INFO, AddressSaved
                      (full_address @ [(''latitude'', PFloat 5), (''longitude'', PFloat 6)]))],
         api_calls := [(PFloat 1, PFloat 2), (PFloat 1, PFloat 2), (PFloat 5, PFloat 6)]\<rparr>)"
  by (simp add: process_row_db_result [of row1 "PFloat 1" "PFloat 2"]
      process_row_db_result [of row2 "PFloat 5" "PFloat 6"] geocoder_full_def
      handle_result_db_def extract_full_components db_merged_full db_addresses_row_full
      save_to_database_def save_handler_def replace_newlines_def print_if_imported_def
      table_insert_def unique_coordinates_def logger_def w0_def Let_def)

section \<open>The claims\<close>

text \<open>
  C8. For a component list of exactly one component, with type tags \<^verbatim>\<open>["street_number"]\<close>
  and display name \<^verbatim>\<open>"123"\<close>, the extractor returns the map \<^verbatim>\<open>{street_number: "123"}\<close>
  and assigns no other field (whatever the short name of the component, present or not).
  The extractor has the same text in both files.
\<close>

theorem street_number_only:
  "get_address_from_address_components
     [\<lparr>types = Some [''street_number''], long_name = Some ''123'', short_name = sn\<rparr>]
   = Some [(''street_number'', PStr ''123'')]"
  by (simp add: get_address_from_address_components_def extract_component_def assign_def
      in_types_def name_value_def)

text \<open>
  C4. If the resolver raises \<^verbatim>\<open>ApiError\<close> on a row, the run ends there with
  \<^verbatim>\<open>SystemExit(1)\<close>: the rows before it have been processed (their world is \<open>w1\<close>), the
  failure is logged at critical severity, and whatever rows follow, nothing more happens:
  the final world is \<open>w1\<close> with that one call and that one log record added, so no later
  call to the service, no extraction, no validation and no insert. Both files.
\<close>

theorem api_failure_aborts_batch:
  assumes "getitem row ''latitude'' = Inr la" and "getitem row ''longitude'' = Inr lo"
  shows
    "(save_dataset_coordinates_to_database_db E before w = (Returned, w1) \<and>
      reverse_geocode E (length (api_calls w1)) (la, lo) = Inl (ApiError m) \<longrightarrow>
        save_dataset_coordinates_to_database_db E (before @ row # after) w =
          (Raised (SystemExit 1),
           w1\<lparr>api_calls := api_calls w1 @ [(la, lo)],
              logged := logged w1 @ [(CRITICAL, Text m)]\<rparr>)) \<and>
     (save_dataset_coordinates_to_database_csv E before w = (Returned, w2) \<and>
      reverse_geocode E (length (api_calls w2)) (la, lo) = Inl (ApiError m) \<longrightarrow>
        save_dataset_coordinates_to_database_csv E (before @ row # after) w =
          (Raised (SystemExit 1),
           w2\<lparr>api_calls := api_calls w2 @ [(la, lo)],
              logged := logged w2 @ [(CRITICAL, Text m)]\<rparr>))"
proof (intro conjI impI)
  assume a: "save_dataset_coordinates_to_database_db E before w = (Returned, w1) \<and>
      reverse_geocode E (length (api_calls w1)) (la, lo) = Inl (ApiError m)"
  then have "process_row_db E row w1 =
      (Raised (SystemExit 1),
       w1\<lparr>api_calls := api_calls w1 @ [(la, lo)], logged := logged w1 @ [(CRITICAL, Text m)]\<rparr>)"
    using assms by (simp add: process_row_db_api_error)
  with a show "save_dataset_coordinates_to_database_db E (before @ row # after) w =
          (Raised (SystemExit 1),
           w1\<lparr>api_calls := api_calls w1 @ [(la, lo)],
              logged := logged w1 @ [(CRITICAL, Text m)]\<rparr>)"
    by (simp add: run_db_append)
next
  assume a: "save_dataset_coordinates_to_database_csv E before w = (Returned, w2) \<and>
      reverse_geocode E (length (api_calls w2)) (la, lo) = Inl (ApiError m)"
  then have "process_row_csv E row w2 =
      (Raised (SystemExit 1),
       w2\<lparr>api_calls := api_calls w2 @ [(la, lo)], logged := logged w2 @ [(CRITICAL, Text m)]\<rparr>)"
    using assms by (simp add: process_row_csv_api_error)
  with a show "save_dataset_coordinates_to_database_csv E (before @ row # after) w =
          (Raised (SystemExit 1),
           w2\<lparr>api_calls := api_calls w2 @ [(la, lo)],
              logged := logged w2 @ [(CRITICAL, Text m)]\<rparr>)"
    by (simp add: run_csv_append)
qed

theorem api_failure_aborts_batch_witness:
  "save_dataset_coordinates_to_database_db
     \<lparr>reverse_geocode = geocoder_third_fails, insert_error = no_insert_error, imported = False\<rparr>
     [row1, row2, row1, row2, row1] w0
   = (Raised (SystemExit 1),
      w0\<lparr>api_calls := [(PFloat 1, PFloat 2), (PFloat 5, PFloat 6), (PFloat 1, PFloat 2)],
         logged := [(WARNING, NotSaved []), (WARNING, NotSaved []),
                    (CRITICAL, Text ''OVER_QUERY_LIMIT'')]\<rparr>) \<and>
   save_dataset_coordinates_to_database_csv
     \<lparr>reverse_geocode = geocoder_third_fails, insert_error = no_insert_error, imported = False\<rparr>
     [row1, row2, row1, row2, row1] w0
   = (Raised (SystemExit 1),
      w0\<lparr>api_calls := [(PFloat 1, PFloat 2), (PFloat 5, PFloat 6), (PFloat 1, PFloat 2)],
         logged := [(WARNING, NotSaved []), (WARNING, NotSaved []),
                    (CRITICAL, Text ''OVER_QUERY_LIMIT'')]\<rparr>)"
proof -
  let ?E = "\<lparr>reverse_geocode = geocoder_third_fails, insert_error = no_insert_error, imported = False\<rparr>"
  let ?w = "w0\<lparr>api_calls := [(PFloat 1, PFloat 2), (PFloat 5, PFloat 6)],
         logged := [(WARNING, NotSaved []), (WARNING, NotSaved [])]\<rparr>"
  have g2: "getitem row2 ''latitude'' = Inr (PFloat 5)" "getitem row2 ''longitude'' = Inr (PFloat 6)"
    by (simp_all add: getitem_def row2_def)
  have db: "save_dataset_coordinates_to_database_db ?E [row1, row2] w0 = (Returned, ?w)"
    by (simp add: process_row_db_result [of row1 "PFloat 1" "PFloat 2"]
        process_row_db_result [OF g2] geocoder_third_fails_def
        handle_result_db_def logger_def print_if_imported_def w0_def)
  have csv: "save_dataset_coordinates_to_database_csv ?E [row1, row2] w0 = (Returned, ?w)"
    by (simp add: process_row_csv_result [of row1 "PFloat 1" "PFloat 2"]
        process_row_csv_result [OF g2] geocoder_third_fails_def
        handle_result_csv_def logger_def w0_def)
  have api: "reverse_geocode ?E (length (api_calls ?w)) (PFloat 1, PFloat 2)
               = Inl (ApiError ''OVER_QUERY_LIMIT'')"
    by (simp add: geocoder_third_fails_def)
  show ?thesis
    using api_failure_aborts_batch [where row = row1 and la = "PFloat 1" and lo = "PFloat 2"
        and E = ?E and before = "[row1, row2]" and w = w0 and ?w1.0 = ?w and ?w2.0 = ?w
        and m = "''OVER_QUERY_LIMIT''" and after = "[row2, row1]"] db csv api
    by (simp add: w0_def)
qed

text \<open>
  C6, as amended. For a row whose resolver call returns no candidate, nothing is inserted
  into \<^verbatim>\<open>coordinate_points\<close> or \<^verbatim>\<open>addresses\<close>, the row's processing returns normally, and
  exactly one record is added to the log, at warning severity, carrying the empty result.
  Both files. The rest of the world is stated too: the call to the service is recorded,
  and the loop of \<^verbatim>\<open>transform_db.py\<close> also prints the message when the module runs
  imported, while the loop of \<^verbatim>\<open>transform_csv_to_database.py\<close> prints nothing.
\<close>

theorem not_found_row_skipped:
  assumes "getitem row ''latitude'' = Inr la" and "getitem row ''longitude'' = Inr lo"
    and "reverse_geocode E (length (api_calls w)) (la, lo) = Inr []"
  shows "fst (process_row_db E row w) = Returned \<and>
         coordinate_points (snd (process_row_db E row w)) = coordinate_points w \<and>
         addresses (snd (process_row_db E row w)) = addresses w \<and>
         logged (snd (process_row_db E row w)) = logged w @ [(WARNING, NotSaved [])] \<and>
         printed (snd (process_row_db E row w)) =
           (if imported E then printed w @ [NotSaved []] else printed w) \<and>
         api_calls (snd (process_row_db E row w)) = api_calls w @ [(la, lo)] \<and>
         fst (process_row_csv E row w) = Returned \<and>
         coordinate_points (snd (process_row_csv E row w)) = coordinate_points w \<and>
         addresses (snd (process_row_csv E row w)) = addresses w \<and>
         logged (snd (process_row_csv E row w)) = logged w @ [(WARNING, NotSaved [])] \<and>
         printed (snd (process_row_csv E row w)) = printed w \<and>
         api_calls (snd (process_row_csv E row w)) = api_calls w @ [(la, lo)]"
  using assms
  by (simp add: process_row_db_result process_row_csv_result handle_result_db_def
      handle_result_csv_def logger_def print_if_imported_def)

theorem not_found_row_skipped_witness:
  "logged (snd (process_row_db
      \<lparr>reverse_geocode = geocoder_not_found, insert_error = no_insert_error, imported = False\<rparr>
      row1 w0)) = [(WARNING, NotSaved [])] \<and>
   addresses (snd (process_row_csv
      \<lparr>reverse_geocode = geocoder_not_found, insert_error = no_insert_error, imported = False\<rparr>
      row1 w0)) = []"
  using not_found_row_skipped [of row1 "PFloat 1" "PFloat 2"
      "\<lparr>reverse_geocode = geocoder_not_found, insert_error = no_insert_error, imported = False\<rparr>" w0]
  by (simp add: geocoder_not_found_def w0_def)

text \<open>
  C6, as stated, promises a SkippedNotFound count raised by one. On a batch of the one row
  \<open>row1\<close>, for which the service finds nothing, the run returns no value, and the world
  after it is the world before it with one warning record and one recorded call: there
  is no count anywhere for the run to raise.
\<close>

theorem not_found_no_count:
  "save_dataset_coordinates_to_database_db
      \<lparr>reverse_geocode = geocoder_not_found, insert_error = no_insert_error, imported = False\<rparr>
      [row1] w0
   = (Returned, w0\<lparr>logged := [(WARNING, NotSaved [])], api_calls := [(PFloat 1, PFloat 2)]\<rparr>)"
  by (simp add: process_row_db_result [of row1 "PFloat 1" "PFloat 2"] geocoder_not_found_def
      handle_result_db_def logger_def print_if_imported_def w0_def)

text \<open>
  C7. For a component list in which no component carries any of the seven recognized
  tags, the extractor returns \<^verbatim>\<open>None\<close> (nothing extracted); and a row whose first candidate
  has such a list is skipped: its processing returns normally, and the world changes only
  by the recorded call to the service, so no insert into either table and no error.
\<close>

theorem no_recognized_tag_row_skipped:
  assumes "\<forall>c\<in>set cs. \<forall>t\<in>set recognized_tags. \<not> in_types t c"
  shows "get_address_from_address_components cs = None \<and>
         (getitem row ''latitude'' = Inr la \<and> getitem row ''longitude'' = Inr lo \<and>
          reverse_geocode E (length (api_calls w)) (la, lo) = Inr (r # rs) \<and>
          address_components r = Some cs \<longrightarrow>
            process_row_db E row w = (Returned, w\<lparr>api_calls := api_calls w @ [(la, lo)]\<rparr>))"
  using extractor_none [OF assms]
  by (simp add: process_row_db_result handle_result_db_def)

theorem no_recognized_tag_row_skipped_witness:
  "get_address_from_address_components [untagged_component] = None \<and>
   process_row_db
      \<lparr>reverse_geocode = geocoder_untagged, insert_error = no_insert_error, imported = False\<rparr>
      row1 w0
   = (Returned, w0\<lparr>api_calls := [(PFloat 1, PFloat 2)]\<rparr>)"
proof -
  have h: "\<forall>c\<in>set [untagged_component]. \<forall>t\<in>set recognized_tags. \<not> in_types t c"
    by (simp add: untagged_component_def recognized_tags_def in_types_def)
  show ?thesis
    using no_recognized_tag_row_skipped [OF h, of row1 "PFloat 1" "PFloat 2"
        "\<lparr>reverse_geocode = geocoder_untagged, insert_error = no_insert_error, imported = False\<rparr>"
        w0 "\<lparr>address_components = Some [untagged_component]\<rparr>" "[]"]
    by (simp add: geocoder_untagged_def w0_def)
qed

text \<open>
  C9. No transaction spans the two inserts of \<^verbatim>\<open>save_to_database\<close>: whenever the
  coordinate insert succeeds and the address insert then raises, the coordinate row stays
  in \<^verbatim>\<open>coordinate_points\<close>, no row is added to \<^verbatim>\<open>addresses\<close>, and (for any
  \<^verbatim>\<open>Exception\<close>) the failure is logged at critical severity and the save returns
  normally. The witness is such an execution.
\<close>

theorem partial_persistence:
  assumes "insert_error E w coordinate_points_table coordinate = None"
    and "insert_error E (w\<lparr>coordinate_points := coordinate_points w @ [coordinate]\<rparr>)
           addresses_table address = Some e"
  shows "coordinate_points (snd (save_to_database E coordinate address w)) =
           coordinate_points w @ [coordinate] \<and>
         addresses (snd (save_to_database E coordinate address w)) = addresses w \<and>
         ((\<forall>n. e \<noteq> SystemExit n) \<longrightarrow>
            fst (save_to_database E coordinate address w) = Returned \<and>
            (\<exists>msg. logged (snd (save_to_database E coordinate address w)) =
                     logged w @ [(CRITICAL, msg)]))"
  using assms
  by (cases e)
     (simp_all add: save_to_database_def table_insert_def save_handler_def logger_def
        print_if_imported_def)

theorem partial_persistence_witness:
  "save_to_database
     \<lparr>reverse_geocode = geocoder_full, insert_error = addresses_rejected, imported = False\<rparr>
     row1 full_address w0
   = (Returned,
      w0\<lparr>coordinate_points := [row1],
         logged := [(CRITICAL, Text ''null value in column id'')]\<rparr>)"
proof -
  let ?E = "\<lparr>reverse_geocode = geocoder_full, insert_error = addresses_rejected, imported = False\<rparr>"
  have h1: "insert_error ?E w0 coordinate_points_table row1 = None"
    by (simp add: addresses_rejected_def)
  have h2: "insert_error ?E (w0\<lparr>coordinate_points := coordinate_points w0 @ [row1]\<rparr>)
              addresses_table full_address = Some (IntegrityError ''null value in column id'')"
    by (simp add: addresses_rejected_def)
  have "coordinate_points (snd (save_to_database ?E row1 full_address w0)) = [row1]"
    using partial_persistence [OF h1 h2] by (simp add: w0_def)
  then show ?thesis
    by (simp add: save_to_database_def table_insert_def save_handler_def logger_def
        print_if_imported_def addresses_rejected_def replace_newlines_def w0_def)
qed

text \<open>
  C5. If every one of the seven recognized tags is carried by some component of the list,
  the extractor returns an address, and that address with latitude and longitude merged in
  (as the loop of \<^verbatim>\<open>transform_db.py\<close> does) is accepted by the validator of
  \<^verbatim>\<open>transform_db.py\<close>.
\<close>

theorem all_seven_tags_valid:
  assumes "\<forall>t\<in>set recognized_tags. \<exists>c\<in>set cs. in_types t c"
  shows "\<exists>address. get_address_from_address_components cs = Some address \<and>
           is_address_valid_db
             (AList.update ''longitude'' longitude (AList.update ''latitude'' latitude address))"
proof -
  let ?a = "fold extract_component cs []"
  have keys: "fst ` set ?a = snd ` set tag_field"
    using keys_fold_extract [of cs "[]"] all_fields [OF assms] by simp
  have "''country'' \<in> snd ` set tag_field" by (simp add: tag_field_def)
  with keys have "''country'' \<in> fst ` set ?a" by simp
  then have ne: "?a \<noteq> []" by auto
  have d: "distinct (map fst ?a)" by (rule distinct_fold_extract) simp
  let ?b = "AList.update ''longitude'' longitude (AList.update ''latitude'' latitude ?a)"
  have db: "distinct (map fst ?b)" using d by (simp add: distinct_update)
  have "fst ` set ?b = {''longitude'', ''latitude''} \<union> snd ` set tag_field"
    using keys by (simp add: dom_update insert_commute)
  also have "\<dots> = set address_components_db"
    by (simp add: tag_field_def address_components_db_def insert_commute)
  finally have "set (map fst ?b) = set address_components_db" by simp
  with db have "is_address_valid_db ?b" by (simp only: is_address_valid_db_iff)
  with ne show ?thesis by (simp add: get_address_from_address_components_def)
qed

theorem all_seven_tags_valid_witness:
  "get_address_from_address_components full_components = Some full_address \<and>
   is_address_valid_db
     (AList.update ''longitude'' (PFloat 2) (AList.update ''latitude'' (PFloat 1) full_address))"
proof -
  have h: "\<forall>t\<in>set recognized_tags. \<exists>c\<in>set full_components. in_types t c"
    by (simp add: recognized_tags_def full_components_def tagged_def in_types_def)
  have e: "get_address_from_address_components full_components = Some full_address"
    by (simp add: get_address_from_address_components_def full_components_def tagged_def
        extract_component_def assign_def in_types_def name_value_def full_address_def)
  show ?thesis
    using all_seven_tags_valid [OF h, of "PFloat 2" "PFloat 1"] e by simp
qed

text \<open>
  C1. The claim: the validator accepts an address exactly when its set of field names is
  the nine required names. The validator of \<^verbatim>\<open>transform_db.py\<close> does
  (\<open>is_address_valid_db_iff\<close>). The validator of \<^verbatim>\<open>transform_csv_to_database.py\<close> does
  not: it accepts the address that its own loop builds from a result holding only a street
  number, three fields, none of them \<^verbatim>\<open>latitude\<close> or \<^verbatim>\<open>longitude\<close>.
\<close>

theorem csv_validator_accepts_incomplete:
  "is_address_valid_csv
     [(''street_number'', PStr ''123''), (''latitute'', PFloat 1), (''longitute'', PFloat 2)] \<and>
   set (map fst
     [(''street_number'', PStr ''123''), (''latitute'', PFloat 1), (''longitute'', PFloat 2)])
     \<noteq> set address_components_db"
proof -
  have "''country'' \<in> set address_components_db"
    by (simp add: address_components_db_def)
  moreover have "''country'' \<notin> set (map fst
     [(''street_number'', PStr ''123''), (''latitute'', PFloat 1), (''longitute'', PFloat 2)])"
    by simp
  ultimately have "set (map fst
     [(''street_number'', PStr ''123''), (''latitute'', PFloat 1), (''longitute'', PFloat 2)])
     \<noteq> set address_components_db" by blast
  then show ?thesis
    by (simp add: is_address_valid_csv_def address_components_csv_def)
qed

text \<open>
  C2. The claim: the latitude and longitude written to the \<^verbatim>\<open>addresses\<close> row are those of
  the input row. The loop of \<^verbatim>\<open>transform_db.py\<close> does so
  (\<open>db_address_row_coordinates\<close>). The loop of \<^verbatim>\<open>transform_csv_to_database.py\<close> merges
  them under the keys \<^verbatim>\<open>latitute\<close> and \<^verbatim>\<open>longitute\<close> and reads \<^verbatim>\<open>latitude\<close> and
  \<^verbatim>\<open>longitude\<close> back: for the row \<open>row1\<close>, of latitude 1 and longitude 2, and a full
  address, the row written to \<^verbatim>\<open>addresses\<close> has \<^verbatim>\<open>None\<close> for both.
\<close>

theorem csv_address_row_loses_coordinates:
  "save_dataset_coordinates_to_database_csv
     \<lparr>reverse_geocode = geocoder_full, insert_error = no_insert_error, imported = False\<rparr>
     [row1] w0
   = (Returned,
      w0\<lparr>coordinate_points := [row1],
         addresses := [full_address @ [(''latitude'', PNone), (''longitude'', PNone)]],
         logged := [(INFO, AddressSaved
                      (full_address @ [(''latitute'', PFloat 1), (''longitute'', PFloat 2)]))],
         api_calls := [(PFloat 1, PFloat 2)]\<rparr>)"
  by (simp add: process_row_csv_result [of row1 "PFloat 1" "PFloat 2"] geocoder_full_def
      handle_result_csv_def extract_full_components csv_merged_full
      table_insert_def no_insert_error_def logger_def w0_def csv_addresses_row_full Let_def)

text \<open>
  C3. The claim: a conflict raised by an insert is caught inside the save, does not leave
  the pipeline, and does not keep later rows from being processed. The loop of
  \<^verbatim>\<open>transform_db.py\<close> does so (\<open>save_to_database_coordinate_conflict\<close>,
  \<open>save_to_database_address_conflict\<close>, \<open>db_conflict_batch_continues\<close>). The loop of
  \<^verbatim>\<open>transform_csv_to_database.py\<close> has no \<^verbatim>\<open>try\<close> around its inserts: on the batch
  \<open>[row1, row1, row2]\<close>, with a table that stores a coordinate row once, the second row
  raises \<^verbatim>\<open>IntegrityError\<close> out of the loop and the third row is never looked up.
\<close>

theorem csv_conflict_aborts_batch:
  "save_dataset_coordinates_to_database_csv
     \<lparr>reverse_geocode = geocoder_full, insert_error = unique_coordinates, imported = False\<rparr>
     [row1, row1, row2] w0
   = (Raised (IntegrityError ''duplicate key''),
      w0\<lparr>coordinate_points := [row1],
         addresses := [full_address @ [(''latitude'', PNone), (''longitude'', PNone)]],
         logged := [(INFO, AddressSaved
                      (full_address @ [(''latitute'', PFloat 1), (''longitute'', PFloat 2)])),
                    (INFO, AddressSaved
                      (full_address @ [(''latitute'', PFloat 1), (''longitute'', PFloat 2)]))],
         api_calls := [(PFloat 1, PFloat 2), (PFloat 1, PFloat 2)]\<rparr>)"
  by (simp add: process_row_csv_result [of row1 "PFloat 1" "PFloat 2"] geocoder_full_def
      handle_result_csv_def extract_full_components csv_merged_full
      table_insert_def unique_coordinates_def logger_def w0_def csv_addresses_row_full Let_def)

text \<open>
  C10. The claim: the validators of the two files return equal booleans on every address.
  On the complete address of nine fields, the one the loop of \<^verbatim>\<open>transform_db.py\<close>
  validates, the validator of \<^verbatim>\<open>transform_db.py\<close> returns \<^verbatim>\<open>True\<close> and the validator of
  \<^verbatim>\<open>transform_csv_to_database.py\<close> returns \<^verbatim>\<open>False\<close>.
\<close>

theorem validators_disagree:
  "is_address_valid_db
     (AList.update ''longitude'' (PFloat 2) (AList.update ''latitude'' (PFloat 1) full_address)) \<and>
   \<not> is_address_valid_csv
     (AList.update ''longitude'' (PFloat 2) (AList.update ''latitude'' (PFloat 1) full_address))"
proof -
  let ?a = "AList.update ''longitude'' (PFloat 2) (AList.update ''latitude'' (PFloat 1) full_address)"
  have d: "distinct (map fst ?a)" by (simp add: full_address_def)
  have "set (map fst ?a) = set address_components_db"
    by (simp add: full_address_def address_components_db_def insert_commute)
  with d have "is_address_valid_db ?a" by (simp only: is_address_valid_db_iff)
  moreover have "\<not> is_address_valid_csv ?a"
    by (simp add: is_address_valid_csv_def address_components_csv_def full_address_def)
  ultimately show ?thesis by simp
qed

end
